theory Spec2Isabelle
  imports Complex_Main "HOL-Library.Word"
begin

section \<open>Audio payload decoding (utils/audioUtils: decodeAudioData)\<close>

text \<open>
  The decoder receives the payload as a base64 string, turns it into bytes with the
  platform's \<^verbatim>\<open>atob\<close>, asks the audio context for a container-aware decode
  and, when that rejects, reads the bytes as headerless 16-bit PCM at 24000 Hz, mono.
  Exceptions are values: every function that can throw returns \<open>js_error + 'a\<close>.
\<close>

type_synonym byte = "8 word"

datatype js_error =
    InvalidCharacterError   \<comment> \<open>\<^verbatim>\<open>atob\<close> on a string that is not base64\<close>
  | EncodingError           \<comment> \<open>\<^verbatim>\<open>ctx.decodeAudioData\<close> rejects the bytes\<close>
  | RangeError              \<comment> \<open>\<^verbatim>\<open>new Int16Array(buffer)\<close> on an odd byte length\<close>
  | NotSupportedError       \<comment> \<open>\<^verbatim>\<open>ctx.createBuffer\<close> with an argument out of range\<close>
  | PlatformError nat       \<comment> \<open>any other failure of a platform call\<close>

text \<open>
  An \<^verbatim>\<open>AudioBuffer\<close>: its channel count, its sample rate and one planar array of
  amplitudes per channel. The amplitudes the fallback stores are quotients of a 16-bit
  integer by \<open>2^15\<close>; each is exactly representable in the 32-bit floats of the
  platform's buffer, so they are modelled as the exact real quotient.
\<close>

record AudioBuffer =
  numberOfChannels :: nat
  sampleRate :: nat
  channelData :: "real list list"

subsection \<open>Platform primitives\<close>

text \<open>
  \<^verbatim>\<open>atob\<close> (the forgiving base64 decoding of the HTML standard): ASCII whitespace is
  dropped; when the length is a multiple of four, one or two trailing \<open>=\<close> are dropped;
  a length of 1 modulo 4, or a character outside the alphabet, is an
  \<^verbatim>\<open>InvalidCharacterError\<close>; every four characters give three bytes, and a rest of two
  or three characters gives one or two bytes. The result is a binary string: one
  character of code 0..255 for each byte.
\<close>

definition b64val :: "char \<Rightarrow> nat option" where
  "b64val c =
     (let n = of_char c :: nat in
      if 65 \<le> n \<and> n \<le> 90 then Some (n - 65)
      else if 97 \<le> n \<and> n \<le> 122 then Some (n - 71)
      else if 48 \<le> n \<and> n \<le> 57 then Some (n + 4)
      else if n = 43 then Some 62
      else if n = 47 then Some 63
      else None)"

definition ascii_whitespace :: "char \<Rightarrow> bool" where
  "ascii_whitespace c = (of_char c \<in> {9, 10, 12, 13, 32 :: nat})"

definition strip_padding :: "string \<Rightarrow> string" where
  "strip_padding s =
     (if length s mod 4 = 0 \<and> s \<noteq> [] \<and> last s = CHR ''=''
      then (let s1 = butlast s in
            if s1 \<noteq> [] \<and> last s1 = CHR ''='' then butlast s1 else s1)
      else s)"

fun sextets :: "string \<Rightarrow> nat list option" where
  "sextets [] = Some []"
| "sextets (c # cs) =
     (case b64val c of None \<Rightarrow> None
      | Some v \<Rightarrow> (case sextets cs of None \<Rightarrow> None | Some vs \<Rightarrow> Some (v # vs)))"

fun octets :: "nat list \<Rightarrow> nat list" where
  "octets (a # b # c # d # rest) =
     (a * 4 + b div 16) # ((b mod 16) * 16 + c div 4) # ((c mod 4) * 64 + d) # octets rest"
| "octets [a, b, c] = [a * 4 + b div 16, (b mod 16) * 16 + c div 4]"
| "octets [a, b] = [a * 4 + b div 16]"
| "octets _ = []"

definition atob :: "string \<Rightarrow> js_error + string" where
  "atob data =
     (let s = strip_padding (filter (\<lambda>c. \<not> ascii_whitespace c) data) in
      if length s mod 4 = 1 then Inl InvalidCharacterError
      else (case sextets s of
              None \<Rightarrow> Inl InvalidCharacterError
            | Some vs \<Rightarrow> Inr (map char_of (octets vs))))"

text \<open>
  \<^verbatim>\<open>new Int16Array(bytes.buffer)\<close>: a view of the bytes as 16-bit signed integers in
  the platform's byte order (little-endian on every platform the application runs on).
  The constructor throws a \<^verbatim>\<open>RangeError\<close> when the byte length is odd.
\<close>

definition int16_le :: "byte \<Rightarrow> byte \<Rightarrow> int" where
  "int16_le lo hi =
     (let u = uint lo + 256 * uint hi in if u < 32768 then u else u - 65536)"

fun int16_view :: "byte list \<Rightarrow> int list" where
  "int16_view (lo # hi # rest) = int16_le lo hi # int16_view rest"
| "int16_view _ = []"

definition Int16Array :: "byte list \<Rightarrow> js_error + int list" where
  "Int16Array bytes =
     (if odd (length bytes) then Inl RangeError else Inr (int16_view bytes))"

text \<open>
  \<^verbatim>\<open>ctx.createBuffer(numberOfChannels, length, sampleRate)\<close>: the Web Audio API
  requires each argument to be at least 1 (and within an implementation's upper limits,
  which the constants of this program, one channel at 24000 Hz, respect) and throws a
  \<^verbatim>\<open>NotSupportedError\<close> otherwise; the new buffer is silent.
\<close>

definition createBuffer :: "nat \<Rightarrow> nat \<Rightarrow> nat \<Rightarrow> js_error + AudioBuffer" where
  "createBuffer numChannels frameCount rate =
     (if numChannels = 0 \<or> frameCount = 0 \<or> rate = 0 then Inl NotSupportedError
      else Inr \<lparr>numberOfChannels = numChannels, sampleRate = rate,
                channelData = replicate numChannels (replicate frameCount 0)\<rparr>)"

subsection \<open>decodeAudioData\<close>

definition bytesOf :: "string \<Rightarrow> byte list" where
  \<comment> \<open>the loop \<^verbatim>\<open>bytes[i] = binaryString.charCodeAt(i)\<close>\<close>
  "bytesOf binaryString = map (\<lambda>c. word_of_nat (of_char c)) binaryString"

definition fillChannel :: "int list \<Rightarrow> nat \<Rightarrow> nat \<Rightarrow> nat \<Rightarrow> real list" where
  \<comment> \<open>the inner loop: \<^verbatim>\<open>channelData[i] = dataInt16[i * numChannels + channel] / 32768.0\<close>\<close>
  "fillChannel dataInt16 numChannels frameCount channel =
     map (\<lambda>i. real_of_int (dataInt16 ! (i * numChannels + channel)) / 32768) [0..<frameCount]"

definition rawPcmFallback :: "byte list \<Rightarrow> js_error + AudioBuffer" where
  \<comment> \<open>the body of the inner \<^verbatim>\<open>try\<close>\<close>
  "rawPcmFallback bytes =
     (let rate = 24000; numChannels = 1 in
      case Int16Array bytes of
        Inl err \<Rightarrow> Inl err
      | Inr dataInt16 \<Rightarrow>
          (let frameCount = length dataInt16 div numChannels in
           case createBuffer numChannels frameCount rate of
             Inl err \<Rightarrow> Inl err
           | Inr buffer \<Rightarrow>
               Inr (buffer\<lparr>channelData :=
                      map (fillChannel dataInt16 numChannels frameCount) [0..<numChannels]\<rparr>)))"

text \<open>
  \<open>ctxDecode\<close> is the audio context's own \<^verbatim>\<open>decodeAudioData\<close>, the container-aware
  decoder of the platform: a parameter. When it rejects with \<open>e\<close> and the fallback
  throws as well, the inner \<^verbatim>\<open>catch\<close> rethrows \<open>e\<close>, not the fallback's error.
  \<^verbatim>\<open>atob\<close> runs before the \<^verbatim>\<open>try\<close>, so its error leaves the function as it is.
\<close>

definition decodeAudioData ::
  "(byte list \<Rightarrow> js_error + AudioBuffer) \<Rightarrow> string \<Rightarrow> js_error + AudioBuffer" where
  "decodeAudioData ctxDecode base64Data =
     (case atob base64Data of
        Inl err \<Rightarrow> Inl err
      | Inr binaryString \<Rightarrow>
          (let bytes = bytesOf binaryString in
           case ctxDecode bytes of
             Inr decoded \<Rightarrow> Inr decoded
           | Inl e \<Rightarrow>
               (case rawPcmFallback bytes of
                  Inr buffer \<Rightarrow> Inr buffer
                | Inl err \<Rightarrow> Inl e)))"

definition noContainer :: "byte list \<Rightarrow> js_error + AudioBuffer" where
  \<comment> \<open>a platform decoder that finds no container in the bytes\<close>
  "noContainer bytes = Inl EncodingError"

subsection \<open>The container decoder of an audio context\<close>

text \<open>
  What the Web Audio API prescribes for \<^verbatim>\<open>ctx.decodeAudioData\<close>: a codec of the
  platform recognises the container and decodes it to linear PCM, with the sample rate
  and the channel count that the container's header declares; when that rate differs
  from the sample rate of the audio context, the audio is resampled to the context's
  rate. The buffer handed back has the container's channels and the context's rate. The
  codec and the resampler are the platform's, and parameters here.
\<close>

record DecodedContainer =
  headerSampleRate :: nat
  headerChannels :: nat
  pcm :: "real list list"

record AudioContext =
  contextSampleRate :: nat
  codec :: "byte list \<Rightarrow> js_error + DecodedContainer"
  resample :: "nat \<Rightarrow> nat \<Rightarrow> real list \<Rightarrow> real list"

definition ctx_decodeAudioData :: "AudioContext \<Rightarrow> byte list \<Rightarrow> js_error + AudioBuffer" where
  "ctx_decodeAudioData ctx bytes =
     (case codec ctx bytes of
        Inl err \<Rightarrow> Inl err
      | Inr container \<Rightarrow>
          Inr \<lparr>numberOfChannels = headerChannels container,
               sampleRate = contextSampleRate ctx,
               channelData =
                 (if headerSampleRate container = contextSampleRate ctx then pcm container
                  else map (resample ctx (headerSampleRate container) (contextSampleRate ctx))
                         (pcm container))\<rparr>)"

section \<open>The exchange with the language model (services/geminiService)\<close>

text \<open>
  Texts are byte strings: a text outside ASCII is written as the bytes of its UTF-8
  encoding, and a text is truthy in the source's sense exactly when it is not empty.
\<close>

record Blob =
  blobParts :: "byte list list"
  blobType :: string

datatype Input = TextInput string | BlobInput Blob

datatype UserPart = TextPart string | InlineData string string

record RobotResponse =
  text' :: string
  audioBase64 :: "string option"

text \<open>
  The calls that leave the program are parameters: \<open>getAiClient\<close> (the constructor
  of the client, which refuses for instance a missing key), \<open>blobToBase64\<close> (the file
  reader behind \<^verbatim>\<open>utils/audioUtils\<close>), the text model's answer (\<^verbatim>\<open>response.text\<close>,
  which may be missing) and the speech model's answer (the inline data of the first part
  of the first candidate, which may be missing). Each may throw.
\<close>

record Gemini =
  getAiClient :: "js_error + unit"
  blobToBase64 :: "Blob \<Rightarrow> js_error + string"
  generateText :: "UserPart \<Rightarrow> js_error + string option"
  generateSpeech :: "string \<Rightarrow> js_error + string option"

definition truthy :: "string option \<Rightarrow> bool" where
  "truthy t = (case t of None \<Rightarrow> False | Some x \<Rightarrow> x \<noteq> [])"

definition notHeardText :: string where
  "notHeardText = map char_of
     [0xE5, 0x93, 0x8E, 0xE5, 0x91, 0x80, 0xEF, 0xBC, 0x8C, 0xE6, 0xB2, 0xA1, 0xE5, 0x90,
      0xAC, 0xE6, 0xB8, 0x85, 0xE5, 0x91, 0xA2, 0x7E :: nat]"

definition systemErrorText :: string where
  "systemErrorText = map char_of
     [0xE7, 0xB3, 0xBB, 0xE7, 0xBB, 0x9F, 0xE5, 0x87, 0xBA, 0xE9, 0x94, 0x99, 0xE4, 0xBA,
      0x86, 0xE5, 0x91, 0x9C, 0xE5, 0x91, 0x9C, 0xE5, 0x91, 0x9C, 0x2E, 0x2E, 0x2E :: nat]"

definition makeUserPart :: "Gemini \<Rightarrow> Input \<Rightarrow> js_error + UserPart" where
  "makeUserPart ai input =
     (case input of
        TextInput t \<Rightarrow> Inr (TextPart t)
      | BlobInput b \<Rightarrow>
          (case blobToBase64 ai b of
             Inl err \<Rightarrow> Inl err
           | Inr base64 \<Rightarrow>
               Inr (InlineData (if blobType b \<noteq> [] then blobType b else ''audio/webm'') base64)))"

definition tryExchange :: "Gemini \<Rightarrow> Input \<Rightarrow> js_error + RobotResponse" where
  \<comment> \<open>the body of the \<^verbatim>\<open>try\<close> of generateRobotResponse\<close>
  "tryExchange ai input =
     (case makeUserPart ai input of
        Inl err \<Rightarrow> Inl err
      | Inr userPart \<Rightarrow>
          (case generateText ai userPart of
             Inl err \<Rightarrow> Inl err
           | Inr t \<Rightarrow>
               (let textResponse = (if truthy t then the t else notHeardText) in
                case generateSpeech ai textResponse of
                  Inl err \<Rightarrow> Inl err
                | Inr audio \<Rightarrow> Inr \<lparr>text' = textResponse, audioBase64 = audio\<rparr>)))"

text \<open>
  The client is created before the \<^verbatim>\<open>try\<close>: when \<open>getAiClient\<close> throws, nothing
  catches it and the promise of generateRobotResponse rejects (\<open>Inl\<close>). An error
  inside the \<^verbatim>\<open>try\<close> is caught, and the \<^verbatim>\<open>catch\<close> resolves with an answer of its
  own, without audio.
\<close>

definition generateRobotResponse :: "Gemini \<Rightarrow> Input \<Rightarrow> js_error + RobotResponse" where
  "generateRobotResponse ai input =
     (case getAiClient ai of
        Inl err \<Rightarrow> Inl err
      | Inr client \<Rightarrow>
          (case tryExchange ai input of
             Inl err \<Rightarrow> Inr \<lparr>text' = systemErrorText, audioBase64 = None\<rparr>
           | Inr result \<Rightarrow> Inr result))"

section \<open>The interaction controller (App)\<close>

datatype PowerStatus = PowerOFF | BOOTING | PowerON

datatype RobotMode = IDLE | LISTENING | THINKING | SPEAKING | MUSIC | SLEEP | OFF

datatype ScreenMode = HOME | MENU | ScreenMUSIC | CLOCK | STATUS | CHAT

datatype EyeExpression =
    NORMAL | HAPPY | SURPRISED | DEAD | SLEEPING | LOADING | EyeMUSIC | HEART
  | EyeLISTENING | WINKING | EyeTHINKING | WIDE

datatype Role = User | Model

text \<open>
  A \<^verbatim>\<open>ChatMessage\<close>; its field \<^verbatim>\<open>text\<close> is \<open>content\<close> here, and the field
  \<^verbatim>\<open>text\<close> of the service's answer is \<open>text'\<close>.
\<close>

record ChatMessage =
  role :: Role
  content :: string

text \<open>
  The platform objects the controller creates. A \<^verbatim>\<open>MediaRecorder\<close> records until it is
  stopped (by \<^verbatim>\<open>stop()\<close>, or by the platform once the tracks of its stream have ended);
  its \<^verbatim>\<open>stop\<close> event is delivered later, to the \<^verbatim>\<open>onstop\<close> handler if one was
  set. An \<^verbatim>\<open>AudioBufferSourceNode\<close> plays from \<^verbatim>\<open>start()\<close> until it runs out or is
  stopped; its \<^verbatim>\<open>ended\<close> event is delivered later, to \<^verbatim>\<open>onended\<close>.
\<close>

datatype RecorderState = Recording | RecorderStopping | Inactive

record Recorder =
  recState :: RecorderState
  onstop :: bool

datatype SourceState = Unstarted | Playing | SourceStopping | Ended

text \<open>
  The component's state: the values of \<^verbatim>\<open>useState\<close>, the refs, the platform objects
  created so far (a ref holds the index of its object), and the asynchronous work in
  flight: boot timers, microphone requests, exchanges with the model, and the payloads
  whose decoding \<^verbatim>\<open>playAudioResponse\<close> awaits.
\<close>

record AppState =
  powerStatus :: PowerStatus
  mode :: RobotMode
  screenMode :: ScreenMode
  expression :: EyeExpression
  isRecording :: bool
  chatHistory :: "ChatMessage list"
  audioContextRef :: bool
  gainNodeRef :: bool
  mediaRecorderRef :: "nat option"
  audioChunksRef :: "byte list list"
  audioSourceRef :: "nat option"
  recorders :: "Recorder list"
  sources :: "SourceState list"
  pendingBoot :: nat
  pendingMic :: nat
  pendingExchange :: nat
  pendingDecode :: "string list"

definition initialState :: AppState where
  "initialState =
     \<lparr>powerStatus = PowerOFF, mode = IDLE, screenMode = HOME, expression = NORMAL,
      isRecording = False, chatHistory = [], audioContextRef = False, gainNodeRef = False,
      mediaRecorderRef = None, audioChunksRef = [], audioSourceRef = None,
      recorders = [], sources = [],
      pendingBoot = 0, pendingMic = 0, pendingExchange = 0, pendingDecode = []\<rparr>"

subsection \<open>Handlers\<close>

definition initAudioContext :: "AppState \<Rightarrow> AppState" where
  "initAudioContext s =
     (if \<not> audioContextRef s then s\<lparr>audioContextRef := True, gainNodeRef := True\<rparr>
      else s)"

definition stopSource :: "SourceState \<Rightarrow> SourceState" where
  \<comment> \<open>\<^verbatim>\<open>source.stop()\<close>; on a source never started it throws, and the caller ignores it\<close>
  "stopSource x = (if x = Playing then SourceStopping else x)"

definition stopAudioPlayback :: "AppState \<Rightarrow> AppState" where
  "stopAudioPlayback s =
     (case audioSourceRef s of
        None \<Rightarrow> s
      | Some i \<Rightarrow> s\<lparr>sources := (sources s)[i := stopSource (sources s ! i)],
                     audioSourceRef := None\<rparr>)"

definition handlePowerOn :: "AppState \<Rightarrow> AppState" where
  "handlePowerOn s =
     (let s1 = initAudioContext s in
      s1\<lparr>powerStatus := BOOTING, pendingBoot := pendingBoot s1 + 1\<rparr>)"

definition bootTimeout :: "AppState \<Rightarrow> AppState" where
  \<comment> \<open>the callback of the 2500 ms timer of handlePowerOn\<close>
  "bootTimeout s = s\<lparr>powerStatus := PowerON, mode := IDLE, pendingBoot := pendingBoot s - 1\<rparr>"

definition stopTracks :: "Recorder \<Rightarrow> Recorder" where
  \<comment> \<open>the tracks of the recorder's stream end: a recorder still recording is stopped\<close>
  "stopTracks r = (if recState r = Recording then r\<lparr>recState := RecorderStopping\<rparr> else r)"

definition handlePowerOff :: "AppState \<Rightarrow> AppState" where
  "handlePowerOff s =
     (let s1 = stopAudioPlayback s;
          s2 = (if isRecording s1
                then (case mediaRecorderRef s1 of
                        None \<Rightarrow> s1
                      | Some i \<Rightarrow> s1\<lparr>recorders := (recorders s1)[i := stopTracks (recorders s1 ! i)]\<rparr>)
                     \<lparr>isRecording := False\<rparr>
                else s1)
      in s2\<lparr>powerStatus := PowerOFF, mode := OFF, screenMode := HOME, expression := NORMAL\<rparr>)"

definition startRecording :: "AppState \<Rightarrow> AppState" where
  \<comment> \<open>up to \<^verbatim>\<open>await getUserMedia\<close>\<close>
  "startRecording s = (let s1 = stopAudioPlayback s in s1\<lparr>pendingMic := pendingMic s1 + 1\<rparr>)"

definition startRecording_granted :: "AppState \<Rightarrow> AppState" where
  \<comment> \<open>the rest of the \<^verbatim>\<open>try\<close> of startRecording, once the stream is there\<close>
  "startRecording_granted s =
     s\<lparr>mediaRecorderRef := Some (length (recorders s)),
       audioChunksRef := [],
       recorders := recorders s @ [\<lparr>recState = Recording, onstop = False\<rparr>],
       isRecording := True, mode := LISTENING, expression := EyeLISTENING,
       pendingMic := pendingMic s - 1\<rparr>"

definition startRecording_denied :: "AppState \<Rightarrow> AppState" where
  \<comment> \<open>the \<^verbatim>\<open>catch\<close> of startRecording: the error is logged\<close>
  "startRecording_denied s = s\<lparr>pendingMic := pendingMic s - 1\<rparr>"

definition stopRecorder :: "Recorder \<Rightarrow> Recorder" where
  \<comment> \<open>\<^verbatim>\<open>recorder.stop()\<close>\<close>
  "stopRecorder r = (if recState r = Recording then r\<lparr>recState := RecorderStopping\<rparr> else r)"

definition stopRecording :: "AppState \<Rightarrow> AppState" where
  "stopRecording s =
     (case mediaRecorderRef s of
        None \<Rightarrow> s
      | Some i \<Rightarrow>
          s\<lparr>recorders := (recorders s)[i := stopTracks (stopRecorder ((recorders s ! i)\<lparr>onstop := True\<rparr>))]\<rparr>)"

definition handleToggleRecording :: "AppState \<Rightarrow> AppState" where
  "handleToggleRecording s =
     (let s1 = initAudioContext s in
      if isRecording s1 then stopRecording s1 else startRecording s1)"

definition voiceMessageText :: string where
  "voiceMessageText =
     map char_of [0xC3, 0xB0, 0xC5, 0xB8, 0xC5, 0xBD, 0xC2, 0xA4 :: nat] @ '' Voice Message''"

definition handleAIInteraction :: "Input \<Rightarrow> AppState \<Rightarrow> AppState" where
  \<comment> \<open>up to \<^verbatim>\<open>await generateRobotResponse(input)\<close>\<close>
  "handleAIInteraction input s =
     (let userText = (case input of TextInput t \<Rightarrow> t | BlobInput b \<Rightarrow> voiceMessageText) in
      s\<lparr>mode := THINKING, expression := LOADING,
        chatHistory := chatHistory s @ [\<lparr>role = User, content = userText\<rparr>],
        pendingExchange := pendingExchange s + 1\<rparr>)"

definition playAudioResponse :: "string \<Rightarrow> AppState \<Rightarrow> AppState" where
  \<comment> \<open>up to \<^verbatim>\<open>await decodeAudioData(base64, ctx)\<close>\<close>
  "playAudioResponse base64 s =
     (if \<not> audioContextRef s \<or> \<not> gainNodeRef s then s
      else s\<lparr>pendingDecode := pendingDecode s @ [base64]\<rparr>)"

definition handleAIInteraction_resume :: "RobotResponse \<Rightarrow> AppState \<Rightarrow> AppState" where
  \<comment> \<open>the rest of handleAIInteraction, once the exchange has resolved with \<open>result\<close>\<close>
  "handleAIInteraction_resume result s =
     (let s1 = (if text' result \<noteq> []
                then s\<lparr>chatHistory := chatHistory s @ [\<lparr>role = Model, content = text' result\<rparr>]\<rparr>
                else s)
      in if truthy (audioBase64 result) then playAudioResponse (the (audioBase64 result)) s1
         else s1\<lparr>mode := IDLE, expression := NORMAL\<rparr>)"

definition recorderOnStop :: "AppState \<Rightarrow> AppState" where
  \<comment> \<open>the \<^verbatim>\<open>onstop\<close> handler that stopRecording installs\<close>
  "recorderOnStop s =
     handleAIInteraction
       (BlobInput \<lparr>blobParts = audioChunksRef s, blobType = ''audio/webm''\<rparr>)
       (s\<lparr>isRecording := False\<rparr>)"

datatype StartOutcome = Started | CreateFailed | StartFailed

definition playAudioResponse_resume ::
  "js_error + AudioBuffer \<Rightarrow> StartOutcome \<Rightarrow> AppState \<Rightarrow> AppState" where
  \<comment> \<open>the rest of playAudioResponse: \<open>decoded\<close> is what decodeAudioData settled with;
      \<open>outcome\<close> says whether the platform then throws before the new source is stored
      (\<open>CreateFailed\<close>), at \<^verbatim>\<open>source.start()\<close> (\<open>StartFailed\<close>), or not at all\<close>
  "playAudioResponse_resume decoded outcome s =
     (case decoded of
        Inl e \<Rightarrow> s\<lparr>mode := IDLE, expression := NORMAL\<rparr>
      | Inr audioBuffer \<Rightarrow>
          (let s1 = stopAudioPlayback s in
           case outcome of
             CreateFailed \<Rightarrow> s1\<lparr>mode := IDLE, expression := NORMAL\<rparr>
           | StartFailed \<Rightarrow>
               s1\<lparr>sources := sources s1 @ [Unstarted],
                  audioSourceRef := Some (length (sources s1)),
                  mode := IDLE, expression := NORMAL\<rparr>
           | Started \<Rightarrow>
               s1\<lparr>sources := sources s1 @ [Playing],
                  audioSourceRef := Some (length (sources s1)),
                  mode := SPEAKING, expression := HAPPY\<rparr>))"

definition sourceOnEnded :: "AppState \<Rightarrow> AppState" where
  \<comment> \<open>the \<^verbatim>\<open>onended\<close> handler that playAudioResponse installs\<close>
  "sourceOnEnded s = s\<lparr>mode := IDLE, expression := NORMAL\<rparr>"

definition handleScreenClick :: "AppState \<Rightarrow> AppState" where
  "handleScreenClick s =
     (if powerStatus s \<noteq> PowerON then s
      else if screenMode s = HOME then (initAudioContext s)\<lparr>screenMode := MENU\<rparr>
      else s)"

subsection \<open>Events\<close>

text \<open>
  The component runs on one thread: each handler, and each stretch of an asynchronous
  handler between two \<^verbatim>\<open>await\<close>s, runs to its end before anything else does. An event
  is a call from the interface or the completion of work in flight, and \<open>step\<close>
  answers \<open>None\<close> for a completion of work that is not in flight. An exchange
  resolves with a result (\<open>ExchangeSettled\<close>) or rejects (\<open>ExchangeRejected\<close>);
  handleAIInteraction awaits it without a \<^verbatim>\<open>catch\<close>, so after a rejection the rest of
  the handler never runs. The idle animation,
  the eye click, the battery and the volume and brightness settings touch none of the
  fields below but \<open>expression\<close>, and are left out.
\<close>

datatype Event =
    PowerOnClick
  | BootTimeout
  | PowerOffClick
  | ToggleRecording
  | MicGranted
  | MicDenied
  | DataAvailable "byte list"
  | RecorderStop nat
  | SendMessage string
  | ExchangeSettled RobotResponse
  | ExchangeRejected js_error
  | DecodeSettled string StartOutcome
  | SourceEnded nat
  | ScreenClick
  | ScreenChange ScreenMode

definition exchangeEvent :: "js_error + RobotResponse \<Rightarrow> Event" where
  \<comment> \<open>the event with which an exchange of that outcome completes\<close>
  "exchangeEvent outcome =
     (case outcome of Inl err \<Rightarrow> ExchangeRejected err | Inr result \<Rightarrow> ExchangeSettled result)"

definition recorderStopEvent :: "nat \<Rightarrow> AppState \<Rightarrow> AppState" where
  \<comment> \<open>the \<^verbatim>\<open>stop\<close> event of recorder \<open>i\<close>\<close>
  "recorderStopEvent i s =
     (let r = recorders s ! i;
          s1 = s\<lparr>recorders := (recorders s)[i := r\<lparr>recState := Inactive\<rparr>]\<rparr>
      in if onstop r then recorderOnStop s1 else s1)"

definition sourceEndedEvent :: "nat \<Rightarrow> AppState \<Rightarrow> AppState" where
  \<comment> \<open>the \<^verbatim>\<open>ended\<close> event of source \<open>i\<close>\<close>
  "sourceEndedEvent i s = sourceOnEnded (s\<lparr>sources := (sources s)[i := Ended]\<rparr>)"

fun step :: "(byte list \<Rightarrow> js_error + AudioBuffer) \<Rightarrow> Event \<Rightarrow> AppState \<Rightarrow> AppState option" where
  "step ctxDecode PowerOnClick s = Some (handlePowerOn s)"
| "step ctxDecode BootTimeout s =
     (if 0 < pendingBoot s then Some (bootTimeout s) else None)"
| "step ctxDecode PowerOffClick s = Some (handlePowerOff s)"
| "step ctxDecode ToggleRecording s = Some (handleToggleRecording s)"
| "step ctxDecode MicGranted s =
     (if 0 < pendingMic s then Some (startRecording_granted s) else None)"
| "step ctxDecode MicDenied s =
     (if 0 < pendingMic s then Some (startRecording_denied s) else None)"
| "step ctxDecode (DataAvailable chunk) s =
     (if list_ex (\<lambda>r. recState r \<noteq> Inactive) (recorders s)
      then Some (s\<lparr>audioChunksRef := audioChunksRef s @ [chunk]\<rparr>) else None)"
| "step ctxDecode (RecorderStop i) s =
     (if i < length (recorders s) \<and> recState (recorders s ! i) = RecorderStopping
      then Some (recorderStopEvent i s) else None)"
| "step ctxDecode (SendMessage t) s = Some (handleAIInteraction (TextInput t) s)"
| "step ctxDecode (ExchangeSettled result) s =
     (if 0 < pendingExchange s
      then Some (handleAIInteraction_resume result (s\<lparr>pendingExchange := pendingExchange s - 1\<rparr>))
      else None)"
| "step ctxDecode (ExchangeRejected err) s =
     (if 0 < pendingExchange s
      then Some (s\<lparr>pendingExchange := pendingExchange s - 1\<rparr>)
      else None)"
| "step ctxDecode (DecodeSettled base64 outcome) s =
     (if base64 \<in> set (pendingDecode s)
      then Some (playAudioResponse_resume (decodeAudioData ctxDecode base64) outcome
                   (s\<lparr>pendingDecode := remove1 base64 (pendingDecode s)\<rparr>))
      else None)"
| "step ctxDecode (SourceEnded i) s =
     (if i < length (sources s) \<and> (sources s ! i = Playing \<or> sources s ! i = SourceStopping)
      then Some (sourceEndedEvent i s) else None)"
| "step ctxDecode ScreenClick s = Some (handleScreenClick s)"
| "step ctxDecode (ScreenChange m) s = Some (s\<lparr>screenMode := m\<rparr>)"

fun run :: "(byte list \<Rightarrow> js_error + AudioBuffer) \<Rightarrow> Event list \<Rightarrow> AppState \<Rightarrow> AppState option" where
  "run ctxDecode [] s = Some s"
| "run ctxDecode (e # es) s =
     (case step ctxDecode e s of None \<Rightarrow> None | Some s' \<Rightarrow> run ctxDecode es s')"

definition captureLive :: "AppState \<Rightarrow> bool" where
  \<comment> \<open>a recorder is recording\<close>
  "captureLive s = list_ex (\<lambda>r. recState r = Recording) (recorders s)"

definition playingCount :: "AppState \<Rightarrow> nat" where
  \<comment> \<open>the number of sources that are playing\<close>
  "playingCount s = length (filter (\<lambda>x. x = Playing) (sources s))"

definition playbackLive :: "AppState \<Rightarrow> bool" where
  "playbackLive s = (0 < playingCount s)"

text \<open>
  The invariant behind the single playback: a source that is playing is the one
  \<open>audioSourceRef\<close> points to.
\<close>

definition playingOwned :: "AppState \<Rightarrow> bool" where
  "playingOwned s =
     (\<forall>i<length (sources s). sources s ! i = Playing \<longrightarrow> audioSourceRef s = Some i)"

section \<open>Sample platforms\<close>

text \<open>
  Concrete platform behaviours at which the theorems below are instantiated: a container
  decoder that accepts every payload, an upstream service whose every call fails, and
  an audio context running at 48000 Hz whose codec reads 16-bit PCM files in the
  canonical RIFF/WAVE layout (a 44-byte header: the tags, format 1, the channel count
  at offset 22, the sample rate at offset 24, 16 bits per sample, then the interleaved
  samples) and whose resampler repeats samples. \<open>wavBase64\<close> is such a file in
  base64, \<open>wavPayload\<close> its bytes: stereo at 8000 Hz, one frame, left 16384 and right
  -16384.
\<close>

definition le_nat :: "byte list \<Rightarrow> nat" where
  \<comment> \<open>an unsigned little-endian number\<close>
  "le_nat bs = foldr (\<lambda>b n. unat b + 256 * n) bs 0"

definition wavCodec :: "byte list \<Rightarrow> js_error + DecodedContainer" where
  "wavCodec bytes =
     (let channels = le_nat (take 2 (drop 22 bytes));
          rate = le_nat (take 4 (drop 24 bytes));
          dataInt16 = int16_view (drop 44 bytes);
          frameCount = length dataInt16 div channels
      in if length bytes < 44
            \<or> take 4 bytes \<noteq> [0x52, 0x49, 0x46, 0x46]
            \<or> take 4 (drop 8 bytes) \<noteq> [0x57, 0x41, 0x56, 0x45]
            \<or> take 4 (drop 12 bytes) \<noteq> [0x66, 0x6D, 0x74, 0x20]
            \<or> le_nat (take 2 (drop 20 bytes)) \<noteq> 1
            \<or> le_nat (take 2 (drop 34 bytes)) \<noteq> 16
            \<or> take 4 (drop 36 bytes) \<noteq> [0x64, 0x61, 0x74, 0x61]
            \<or> channels = 0 \<or> rate = 0
         then Inl EncodingError
         else Inr \<lparr>headerSampleRate = rate, headerChannels = channels,
                   pcm = map (fillChannel dataInt16 channels frameCount) [0..<channels]\<rparr>)"

definition holdResample :: "nat \<Rightarrow> nat \<Rightarrow> real list \<Rightarrow> real list" where
  "holdResample rateFrom rateTo xs =
     map (\<lambda>i. xs ! (i * rateFrom div rateTo)) [0..<length xs * rateTo div rateFrom]"

definition browser48k :: AudioContext where
  "browser48k = \<lparr>contextSampleRate = 48000, codec = wavCodec, resample = holdResample\<rparr>"

definition wavBase64 :: string where
  "wavBase64 = ''UklGRigAAABXQVZFZm10IBAAAAABAAIAQB8AAAB9AAAEABAAZGF0YQQAAAAAQADA''"

definition wavPayload :: "byte list" where
  "wavPayload =
     [0x52, 0x49, 0x46, 0x46, 0x28, 0x00, 0x00, 0x00, 0x57, 0x41, 0x56, 0x45,
      0x66, 0x6D, 0x74, 0x20, 0x10, 0x00, 0x00, 0x00, 0x01, 0x00, 0x02, 0x00,
      0x40, 0x1F, 0x00, 0x00, 0x00, 0x7D, 0x00, 0x00, 0x04, 0x00, 0x10, 0x00,
      0x64, 0x61, 0x74, 0x61, 0x04, 0x00, 0x00, 0x00, 0x00, 0x40, 0x00, 0xC0]"

definition cdContainer :: "byte list \<Rightarrow> js_error + AudioBuffer" where
  \<comment> \<open>whatever the bytes, a silent stereo buffer at 44100 Hz\<close>
  "cdContainer bytes =
     Inr \<lparr>numberOfChannels = 2, sampleRate = 44100, channelData = [[0, 0], [0, 0]]\<rparr>"

definition offline :: Gemini where
  "offline =
     \<lparr>getAiClient = Inr (),
      blobToBase64 = (\<lambda>b. Inl (PlatformError 0)),
      generateText = (\<lambda>p. Inl (PlatformError 0)),
      generateSpeech = (\<lambda>t. Inl (PlatformError 0))\<rparr>"

text \<open>
  A run of the interface in which a second recording is started while the exchange of
  the first is in flight, and the state it ends in.
\<close>

definition overlapTrace :: "Event list" where
  "overlapTrace =
     [PowerOnClick, BootTimeout, ScreenClick, ScreenChange CHAT,
      ToggleRecording, MicGranted, ToggleRecording, RecorderStop 0,
      ToggleRecording, MicGranted,
      ExchangeSettled \<lparr>text' = ''hi'', audioBase64 = Some ''AIA=''\<rparr>,
      DecodeSettled ''AIA='' Started]"

definition overlapState :: AppState where
  "overlapState =
     \<lparr>powerStatus = PowerON, mode = SPEAKING, screenMode = CHAT, expression = HAPPY,
      isRecording = True,
      chatHistory = [\<lparr>role = User, content = voiceMessageText\<rparr>,
                     \<lparr>role = Model, content = ''hi''\<rparr>],
      audioContextRef = True, gainNodeRef = True, mediaRecorderRef = Some 1,
      audioChunksRef = [], audioSourceRef = Some 0,
      recorders = [\<lparr>recState = Inactive, onstop = True\<rparr>,
                   \<lparr>recState = Recording, onstop = False\<rparr>],
      sources = [Playing],
      pendingBoot = 0, pendingMic = 0, pendingExchange = 0, pendingDecode = []\<rparr>"

text \<open>
  Two states in which an exchange is in flight: \<open>thinkingState\<close> after power on and a
  typed message, \<open>coldState\<close> after a typed message alone, before anything has created
  the audio context.
\<close>

definition thinkingState :: AppState where
  "thinkingState = handleAIInteraction (TextInput ''hello'') (bootTimeout (handlePowerOn initialState))"

definition coldState :: AppState where
  "coldState = handleAIInteraction (TextInput ''hello'') initialState"

section \<open>Properties of the decoder\<close>

lemma atob_empty: "atob [] = Inr []"
  by (simp add: atob_def strip_padding_def)

lemma int16_le_bounds: "- 32768 \<le> int16_le lo hi \<and> int16_le lo hi < 32768"
proof -
  define u where "u = uint lo + 256 * uint hi"
  have "uint lo < 256" "uint hi < 256"
    using uint_lt2p [of lo] uint_lt2p [of hi] by simp_all
  moreover have "0 \<le> uint lo" "0 \<le> uint hi"
    by simp_all
  ultimately have "0 \<le> u" "u < 65536"
    unfolding u_def by linarith+
  moreover have "int16_le lo hi = (if u < 32768 then u else u - 65536)"
    by (simp add: int16_le_def Let_def u_def)
  ultimately show ?thesis
    by simp
qed

lemma length_int16_view: "length (int16_view bytes) = length bytes div 2"
  by (induction bytes rule: int16_view.induct) simp_all

lemma nth_int16_view:
  "i < length bytes div 2 \<Longrightarrow>
   int16_view bytes ! i = int16_le (bytes ! (2 * i)) (bytes ! (2 * i + 1))"
proof (induction bytes arbitrary: i rule: int16_view.induct)
  case (1 lo hi rest)
  then show ?case by (cases i) simp_all
qed simp_all

lemma rawPcmFallback_fails_iff:
  "(\<exists>err. rawPcmFallback bytes = Inl err) \<longleftrightarrow> odd (length bytes) \<or> bytes = []"
  by (cases bytes rule: int16_view.cases)
     (auto simp: rawPcmFallback_def Int16Array_def createBuffer_def Let_def length_int16_view
           split: sum.splits)

lemma rawPcmFallback_ok:
  assumes "length bytes = 2 * n" "0 < n"
  shows "rawPcmFallback bytes =
           Inr \<lparr>numberOfChannels = 1, sampleRate = 24000,
                channelData = [map (\<lambda>i. real_of_int (int16_view bytes ! i) / 32768) [0..<n]]\<rparr>"
  using assms
  by (simp add: rawPcmFallback_def Int16Array_def createBuffer_def Let_def length_int16_view
        fillChannel_def)

lemma atob_AIA: "atob ''AIA='' = Inr (map char_of [0, 128 :: nat])"
  by (simp add: atob_def strip_padding_def ascii_whitespace_def b64val_def)

lemma atob_AQID: "atob ''AQID'' = Inr (map char_of [1, 2, 3 :: nat])"
  by (simp add: atob_def strip_padding_def ascii_whitespace_def b64val_def)

lemma bytesOf_AIA: "bytesOf (map char_of [0, 128 :: nat]) = [0, 128]"
  by (simp add: bytesOf_def)

lemma atob_wav:
  "atob wavBase64 = Inr (map char_of
     [82, 73, 70, 70, 40, 0, 0, 0, 87, 65, 86, 69, 102, 109, 116, 32, 16, 0, 0, 0, 1, 0, 2, 0,
      64, 31, 0, 0, 0, 125, 0, 0, 4, 0, 16, 0, 100, 97, 116, 97, 4, 0, 0, 0, 0, 64, 0, 192 :: nat])"
  by (simp add: wavBase64_def atob_def strip_padding_def ascii_whitespace_def b64val_def)

lemma wav_bytes:
  "map (\<lambda>c. word_of_nat (of_char c))
     (map char_of
       [82, 73, 70, 70, 40, 0, 0, 0, 87, 65, 86, 69, 102, 109, 116, 32, 16, 0, 0, 0, 1, 0, 2, 0,
        64, 31, 0, 0, 0, 125, 0, 0, 4, 0, 16, 0, 100, 97, 116, 97, 4, 0, 0, 0, 0, 64, 0, 192 :: nat])
   = wavPayload"
  by (simp add: wavPayload_def)

lemma wavCodec_wavPayload:
  "wavCodec wavPayload =
     Inr \<lparr>headerSampleRate = 8000, headerChannels = 2, pcm = [[1 / 2], [- (1 / 2)]]\<rparr>"
  by (simp add: wavCodec_def wavPayload_def le_nat_def Let_def fillChannel_def int16_le_def
        upt_rec)


lemma decodeAudioData_container_ok:
  assumes "atob base64Data = Inr binaryString"
    and "ctxDecode (map (\<lambda>c. word_of_nat (of_char c)) binaryString) = Inr decoded"
  shows "decodeAudioData ctxDecode base64Data = Inr decoded"
  using assms by (simp add: decodeAudioData_def bytesOf_def)

lemma holdResample_half: "holdResample 8000 48000 [x] = [x, x, x, x, x, x]"
  by (simp add: holdResample_def upt_rec)

lemma decode_wav:
  "decodeAudioData (ctx_decodeAudioData browser48k) wavBase64 =
     Inr \<lparr>numberOfChannels = 2, sampleRate = 48000,
          channelData = [[1 / 2, 1 / 2, 1 / 2, 1 / 2, 1 / 2, 1 / 2],
                         [- (1 / 2), - (1 / 2), - (1 / 2), - (1 / 2), - (1 / 2), - (1 / 2)]]\<rparr>"
proof -
  have "ctx_decodeAudioData browser48k wavPayload =
     Inr \<lparr>numberOfChannels = 2, sampleRate = 48000,
          channelData = [[1 / 2, 1 / 2, 1 / 2, 1 / 2, 1 / 2, 1 / 2],
                         [- (1 / 2), - (1 / 2), - (1 / 2), - (1 / 2), - (1 / 2), - (1 / 2)]]\<rparr>"
    by (simp add: ctx_decodeAudioData_def browser48k_def wavCodec_wavPayload holdResample_half)
  then show ?thesis
    using decodeAudioData_container_ok [OF atob_wav, of "ctx_decodeAudioData browser48k"]
    by (simp only: wav_bytes)
qed

lemma length_bytesOf: "length (bytesOf binaryString) = length binaryString"
  by (simp add: bytesOf_def)

lemma nth_bytesOf:
  "i < length binaryString \<Longrightarrow> unat (bytesOf binaryString ! i) = of_char (binaryString ! i)"
  by (simp add: bytesOf_def unat_of_nat)

text \<open>
  C5, as stated: \<open>wavBase64\<close> is a file whose header declares 8000 Hz and two
  channels. Decoded in a context running at 48000 Hz, the container-aware decode
  succeeds and the buffer that decodeAudioData returns has two channels and a sample
  rate of 48000 Hz: the context's rate, not the header's.
\<close>

theorem container_rate_not_kept_counterexample:
  "map_sum id headerSampleRate (wavCodec wavPayload) = Inr 8000 \<and>
   map_sum id headerChannels (wavCodec wavPayload) = Inr 2 \<and>
   map_sum id sampleRate (decodeAudioData (ctx_decodeAudioData browser48k) wavBase64) = Inr 48000 \<and>
   map_sum id numberOfChannels (decodeAudioData (ctx_decodeAudioData browser48k) wavBase64) = Inr 2"
  by (simp add: wavCodec_wavPayload decode_wav)

text \<open>
  C5, amended. When the container-aware decode succeeds on the bytes of the payload,
  decodeAudioData returns that decoder's buffer as it is. Its channel count is the one
  the container's header declares; its sample rate is the audio context's, to which the
  platform resamples the audio; neither comes from the constants of the fallback
  (24000 Hz, mono).
\<close>

theorem decode_container_channels_and_context_rate:
  assumes "atob base64Data = Inr binaryString"
    and "codec ctx (map (\<lambda>c. word_of_nat (of_char c)) binaryString) = Inr container"
  shows "decodeAudioData (ctx_decodeAudioData ctx) base64Data =
           ctx_decodeAudioData ctx (map (\<lambda>c. word_of_nat (of_char c)) binaryString) \<and>
         decodeAudioData (ctx_decodeAudioData ctx) base64Data =
           Inr \<lparr>numberOfChannels = headerChannels container,
                sampleRate = contextSampleRate ctx,
                channelData =
                  (if headerSampleRate container = contextSampleRate ctx then pcm container
                   else map (resample ctx (headerSampleRate container) (contextSampleRate ctx))
                          (pcm container))\<rparr>"
proof -
  let ?bytes = "map (\<lambda>c. word_of_nat (of_char c) :: byte) binaryString"
  have d: "ctx_decodeAudioData ctx ?bytes =
             Inr \<lparr>numberOfChannels = headerChannels container,
                  sampleRate = contextSampleRate ctx,
                  channelData =
                    (if headerSampleRate container = contextSampleRate ctx then pcm container
                     else map (resample ctx (headerSampleRate container) (contextSampleRate ctx))
                            (pcm container))\<rparr>"
    using assms(2) by (simp add: ctx_decodeAudioData_def)
  with assms(1) have "decodeAudioData (ctx_decodeAudioData ctx) base64Data =
             Inr \<lparr>numberOfChannels = headerChannels container,
                  sampleRate = contextSampleRate ctx,
                  channelData =
                    (if headerSampleRate container = contextSampleRate ctx then pcm container
                     else map (resample ctx (headerSampleRate container) (contextSampleRate ctx))
                            (pcm container))\<rparr>"
    by (rule decodeAudioData_container_ok)
  with d show ?thesis
    by simp
qed

theorem decode_container_channels_and_context_rate_witness:
  "atob wavBase64 = Inr (map char_of
     [82, 73, 70, 70, 40, 0, 0, 0, 87, 65, 86, 69, 102, 109, 116, 32, 16, 0, 0, 0, 1, 0, 2, 0,
      64, 31, 0, 0, 0, 125, 0, 0, 4, 0, 16, 0, 100, 97, 116, 97, 4, 0, 0, 0, 0, 64, 0, 192 :: nat]) \<and>
   codec browser48k wavPayload =
     Inr \<lparr>headerSampleRate = 8000, headerChannels = 2, pcm = [[1 / 2], [- (1 / 2)]]\<rparr> \<and>
   decodeAudioData (ctx_decodeAudioData browser48k) wavBase64 =
     Inr \<lparr>numberOfChannels = 2, sampleRate = 48000,
          channelData = [[1 / 2, 1 / 2, 1 / 2, 1 / 2, 1 / 2, 1 / 2],
                         [- (1 / 2), - (1 / 2), - (1 / 2), - (1 / 2), - (1 / 2), - (1 / 2)]]\<rparr>"
proof -
  let ?s = "map char_of
     [82, 73, 70, 70, 40, 0, 0, 0, 87, 65, 86, 69, 102, 109, 116, 32, 16, 0, 0, 0, 1, 0, 2, 0,
      64, 31, 0, 0, 0, 125, 0, 0, 4, 0, 16, 0, 100, 97, 116, 97, 4, 0, 0, 0, 0, 64, 0, 192 :: nat]"
  let ?c = "\<lparr>headerSampleRate = 8000, headerChannels = 2, pcm = [[1 / 2], [- (1 / 2)]]\<rparr>"
  have c: "codec browser48k wavPayload = Inr ?c"
    by (simp add: browser48k_def wavCodec_wavPayload)
  have h2: "codec browser48k (map (\<lambda>c. word_of_nat (of_char c)) ?s) = Inr ?c"
    using c by (simp only: wav_bytes)
  have sel: "contextSampleRate browser48k = 48000" "resample browser48k = holdResample"
    by (simp_all add: browser48k_def)
  from decode_container_channels_and_context_rate [OF atob_wav h2, THEN conjunct2]
  have "decodeAudioData (ctx_decodeAudioData browser48k) wavBase64 =
     Inr \<lparr>numberOfChannels = 2, sampleRate = 48000,
          channelData = [[1 / 2, 1 / 2, 1 / 2, 1 / 2, 1 / 2, 1 / 2],
                         [- (1 / 2), - (1 / 2), - (1 / 2), - (1 / 2), - (1 / 2), - (1 / 2)]]\<rparr>"
    by (simp add: sel holdResample_half)
  with atob_wav c show ?thesis
    by blast
qed

text \<open>
  C7. On the empty payload, which the platform's container decoder rejects, decoding
  fails with the container decoder's error: the fallback gets an empty sample array,
  \<^verbatim>\<open>createBuffer\<close> refuses a length of zero, and no zero-length buffer is returned.
\<close>

theorem decode_empty_payload_fails:
  assumes "ctxDecode [] = Inl e"
  shows "decodeAudioData ctxDecode [] = Inl e"
  using assms
  by (simp add: decodeAudioData_def atob_empty bytesOf_def rawPcmFallback_def Int16Array_def
        createBuffer_def)

theorem decode_empty_payload_fails_witness:
  "noContainer [] = Inl EncodingError \<and> decodeAudioData noContainer [] = Inl EncodingError"
  using decode_empty_payload_fails [of noContainer EncodingError]
  by (simp add: noContainer_def)

text \<open>
  C8, as stated: on a payload text that is not base64, \<^verbatim>\<open>atob\<close> throws before the
  \<^verbatim>\<open>try\<close>. decodeAudioData fails though neither strategy has failed, even with a
  container decoder that accepts every payload, and the error is not a container
  decoder's.
\<close>

theorem decode_error_without_strategy_counterexample:
  "atob ''!!!!'' = Inl InvalidCharacterError \<and>
   decodeAudioData cdContainer ''!!!!'' = Inl InvalidCharacterError \<and>
   decodeAudioData noContainer ''!!!!'' = Inl InvalidCharacterError"
proof -
  have "atob ''!!!!'' = Inl InvalidCharacterError"
    by (simp add: atob_def strip_padding_def ascii_whitespace_def b64val_def)
  then show ?thesis
    by (simp add: decodeAudioData_def)
qed

text \<open>
  C8, amended. decodeAudioData fails exactly when the payload text is not base64, with
  the error of \<^verbatim>\<open>atob\<close>, or when it is base64 and both strategies fail on its bytes:
  the container-aware decode fails and the raw PCM reading fails too, and then the
  error is the container decoder's. The raw PCM reading fails exactly on an odd or zero
  number of bytes.
\<close>

theorem decode_fails_iff:
  "(decodeAudioData ctxDecode base64Data = Inl e \<longleftrightarrow>
      atob base64Data = Inl e \<or>
      (\<exists>binaryString. atob base64Data = Inr binaryString \<and>
         ctxDecode (bytesOf binaryString) = Inl e \<and>
         (\<exists>err. rawPcmFallback (bytesOf binaryString) = Inl err))) \<and>
   ((\<exists>err. rawPcmFallback (bytesOf binaryString) = Inl err) \<longleftrightarrow>
      odd (length binaryString) \<or> binaryString = [])"
proof
  show "decodeAudioData ctxDecode base64Data = Inl e \<longleftrightarrow>
          atob base64Data = Inl e \<or>
          (\<exists>binaryString. atob base64Data = Inr binaryString \<and>
             ctxDecode (bytesOf binaryString) = Inl e \<and>
             (\<exists>err. rawPcmFallback (bytesOf binaryString) = Inl err))"
    by (cases "atob base64Data")
       (auto simp: decodeAudioData_def Let_def split: sum.splits)
  show "(\<exists>err. rawPcmFallback (bytesOf binaryString) = Inl err) \<longleftrightarrow>
          odd (length binaryString) \<or> binaryString = []"
    by (simp add: rawPcmFallback_fails_iff bytesOf_def)
qed

theorem decode_fails_iff_witness:
  "atob ''AQID'' = Inr (map char_of [1, 2, 3 :: nat]) \<and>
   noContainer (bytesOf (map char_of [1, 2, 3 :: nat])) = Inl EncodingError \<and>
   odd (length (map char_of [1, 2, 3 :: nat])) \<and>
   (\<exists>err. rawPcmFallback (bytesOf (map char_of [1, 2, 3 :: nat])) = Inl err) \<and>
   decodeAudioData noContainer ''AQID'' = Inl EncodingError"
proof -
  let ?s = "map char_of [1, 2, 3 :: nat]"
  note r = decode_fails_iff [of noContainer "''AQID''" EncodingError ?s]
  have o: "odd (length ?s)"
    by simp
  with r have f: "\<exists>err. rawPcmFallback (bytesOf ?s) = Inl err"
    by blast
  have n: "noContainer (bytesOf ?s) = Inl EncodingError"
    by (simp add: noContainer_def)
  from r atob_AQID n f have "decodeAudioData noContainer ''AQID'' = Inl EncodingError"
    by blast
  with atob_AQID n o f show ?thesis
    by blast
qed

text \<open>
  C4, as stated, at \<open>n = 0\<close>: the empty payload has length \<open>2 * 0\<close> and fails the
  container decode, and decoding fails instead of returning a buffer of no samples.
\<close>

theorem decode_raw_pcm_every_length_counterexample:
  "atob [] = Inr [] \<and> length ([] :: string) = 2 * 0 \<and>
   noContainer (bytesOf []) = Inl EncodingError \<and>
   decodeAudioData noContainer [] = Inl EncodingError"
  by (simp add: decodeAudioData_def atob_empty bytesOf_def noContainer_def rawPcmFallback_def
        Int16Array_def createBuffer_def)

text \<open>
  C4, amended. For every payload of \<open>2 * n\<close> bytes with \<open>n \<ge> 1\<close> on which the
  container-aware decode fails, decodeAudioData returns a mono buffer at 24000 Hz of
  exactly \<open>n\<close> samples; sample \<open>i\<close> is the \<open>i\<close>-th little-endian signed 16-bit
  integer of the payload divided by 32768, and lies in \<open>[-1, 1)\<close>.
\<close>

theorem decode_raw_pcm_fallback:
  assumes "atob base64Data = Inr binaryString"
    and "length binaryString = 2 * n" and "0 < n"
    and "ctxDecode (bytesOf binaryString) = Inl e"
  shows "\<exists>samples.
           decodeAudioData ctxDecode base64Data =
             Inr \<lparr>numberOfChannels = 1, sampleRate = 24000, channelData = [samples]\<rparr> \<and>
           length samples = n \<and>
           (\<forall>i<n. samples ! i =
                     real_of_int (int16_le (bytesOf binaryString ! (2 * i))
                                           (bytesOf binaryString ! (2 * i + 1))) / 32768 \<and>
                   - 1 \<le> samples ! i \<and> samples ! i < 1)"
proof -
  let ?bytes = "bytesOf binaryString"
  let ?samples = "map (\<lambda>i. real_of_int (int16_view ?bytes ! i) / 32768) [0..<n]"
  have len: "length ?bytes = 2 * n"
    using assms(2) by (simp add: bytesOf_def)
  have "rawPcmFallback ?bytes =
          Inr \<lparr>numberOfChannels = 1, sampleRate = 24000, channelData = [?samples]\<rparr>"
    using len assms(3) by (rule rawPcmFallback_ok)
  then have "decodeAudioData ctxDecode base64Data =
          Inr \<lparr>numberOfChannels = 1, sampleRate = 24000, channelData = [?samples]\<rparr>"
    using assms(1,4) by (simp add: decodeAudioData_def)
  moreover have "length ?samples = n"
    by simp
  moreover have "\<forall>i<n. ?samples ! i =
                     real_of_int (int16_le (?bytes ! (2 * i)) (?bytes ! (2 * i + 1))) / 32768 \<and>
                   - 1 \<le> ?samples ! i \<and> ?samples ! i < 1"
  proof (intro allI impI)
    fix i assume "i < n"
    then have v: "int16_view ?bytes ! i = int16_le (?bytes ! (2 * i)) (?bytes ! (2 * i + 1))"
      using len by (simp add: nth_int16_view)
    have b: "- 32768 \<le> int16_view ?bytes ! i" "int16_view ?bytes ! i < 32768"
      using int16_le_bounds [of "?bytes ! (2 * i)" "?bytes ! (2 * i + 1)"] v by simp_all
    have s: "?samples ! i = real_of_int (int16_view ?bytes ! i) / 32768"
      using \<open>i < n\<close> by simp
    show "?samples ! i =
            real_of_int (int16_le (?bytes ! (2 * i)) (?bytes ! (2 * i + 1))) / 32768 \<and>
          - 1 \<le> ?samples ! i \<and> ?samples ! i < 1"
      using b v s by (simp add: field_simps)
  qed
  ultimately show ?thesis
    by blast
qed

theorem decode_raw_pcm_fallback_witness:
  "atob ''AIA='' = Inr (map char_of [0, 128 :: nat]) \<and>
   length (map char_of [0, 128 :: nat]) = 2 * 1 \<and> (0 :: nat) < 1 \<and>
   noContainer (bytesOf (map char_of [0, 128 :: nat])) = Inl EncodingError \<and>
   decodeAudioData noContainer ''AIA='' =
     Inr \<lparr>numberOfChannels = 1, sampleRate = 24000, channelData = [[- 1]]\<rparr>"
proof -
  let ?s = "map char_of [0, 128 :: nat]"
  have h1: "atob ''AIA='' = Inr ?s"
    by (rule atob_AIA)
  have h2: "length ?s = 2 * 1"
    by simp
  have h3: "(0 :: nat) < 1"
    by simp
  have h4: "noContainer (bytesOf ?s) = Inl EncodingError"
    by (simp add: noContainer_def)
  from decode_raw_pcm_fallback [of "''AIA=''" ?s 1 noContainer EncodingError, OF h1 h2 h3 h4]
  obtain samples where
    d: "decodeAudioData noContainer ''AIA='' =
          Inr \<lparr>numberOfChannels = 1, sampleRate = 24000, channelData = [samples]\<rparr>"
    and l: "length samples = 1"
    and v: "samples ! 0 = real_of_int (int16_le (bytesOf ?s ! (2 * 0)) (bytesOf ?s ! (2 * 0 + 1))) / 32768"
    by auto
  from l obtain x where x: "samples = [x]"
    by (cases samples) auto
  with v have "x = - 1"
    by (simp add: bytesOf_def int16_le_def)
  with d x h1 h2 h3 h4 show ?thesis
    by simp
qed

section \<open>Properties of the controller\<close>

lemmas handler_defs =
  handlePowerOn_def bootTimeout_def handlePowerOff_def handleToggleRecording_def
  startRecording_def startRecording_granted_def startRecording_denied_def stopRecording_def
  stopRecorder_def stopTracks_def stopAudioPlayback_def stopSource_def initAudioContext_def
  handleAIInteraction_def handleAIInteraction_resume_def playAudioResponse_def
  playAudioResponse_resume_def recorderOnStop_def recorderStopEvent_def sourceOnEnded_def
  sourceEndedEvent_def handleScreenClick_def truthy_def Let_def

lemma decode_AIA:
  "decodeAudioData noContainer ''AIA='' =
     Inr \<lparr>numberOfChannels = 1, sampleRate = 24000, channelData = [[- 1]]\<rparr>"
  by (simp add: decodeAudioData_def atob_AIA bytesOf_def noContainer_def rawPcmFallback_def
        Int16Array_def createBuffer_def fillChannel_def int16_le_def)

lemma decode_AQID: "decodeAudioData noContainer ''AQID'' = Inl EncodingError"
  by (simp add: decodeAudioData_def atob_AQID bytesOf_def noContainer_def rawPcmFallback_def
        Int16Array_def)

lemma run_overlapTrace: "run noContainer overlapTrace initialState = Some overlapState"
  by (simp add: overlapTrace_def overlapState_def initialState_def handler_defs decode_AIA)

subsection \<open>One playback at a time\<close>

lemma no_nth_filter_empty:
  "(\<forall>j<length xs. xs ! j \<noteq> a) \<Longrightarrow> filter (\<lambda>x. x = a) xs = []"
  by (auto simp: filter_empty_conv in_set_conv_nth)

lemma filter_at_most_one:
  "(\<forall>j<length xs. j \<noteq> i \<longrightarrow> xs ! j \<noteq> a) \<Longrightarrow> length (filter (\<lambda>x. x = a) xs) \<le> 1"
proof (induction xs arbitrary: i)
  case Nil
  then show ?case by simp
next
  case (Cons x xs)
  show ?case
  proof (cases i)
    case 0
    with Cons.prems have "\<forall>j<length xs. xs ! j \<noteq> a"
      by fastforce
    then have "filter (\<lambda>x. x = a) xs = []"
      by (rule no_nth_filter_empty)
    then show ?thesis by simp
  next
    case (Suc k)
    with Cons.prems have "x \<noteq> a"
      by fastforce
    moreover from Suc Cons.prems have "\<forall>j<length xs. j \<noteq> k \<longrightarrow> xs ! j \<noteq> a"
      by fastforce
    then have "length (filter (\<lambda>x. x = a) xs) \<le> 1"
      by (rule Cons.IH)
    ultimately show ?thesis by simp
  qed
qed

lemma playingOwned_count: "playingOwned s \<Longrightarrow> playingCount s \<le> 1"
proof (cases "audioSourceRef s")
  case None
  assume "playingOwned s"
  with None have "\<forall>j<length (sources s). j \<noteq> 0 \<longrightarrow> sources s ! j \<noteq> Playing"
    by (auto simp: playingOwned_def)
  then show ?thesis
    unfolding playingCount_def by (rule filter_at_most_one)
next
  case (Some i)
  assume "playingOwned s"
  with Some have "\<forall>j<length (sources s). j \<noteq> i \<longrightarrow> sources s ! j \<noteq> Playing"
    by (auto simp: playingOwned_def)
  then show ?thesis
    unfolding playingCount_def by (rule filter_at_most_one)
qed

lemma playingOwned_frame:
  "sources s' = sources s \<Longrightarrow> audioSourceRef s' = audioSourceRef s \<Longrightarrow>
   playingOwned s' = playingOwned s"
  by (simp add: playingOwned_def)

lemma stopAudioPlayback_none_playing:
  assumes "playingOwned s"
  shows "\<forall>i<length (sources (stopAudioPlayback s)). sources (stopAudioPlayback s) ! i \<noteq> Playing"
proof (cases "audioSourceRef s")
  case None
  with assms show ?thesis
    by (simp add: playingOwned_def stopAudioPlayback_def)
next
  case (Some k)
  show ?thesis
  proof (intro allI impI)
    fix i assume "i < length (sources (stopAudioPlayback s))"
    then have i: "i < length (sources s)"
      using Some by (simp add: stopAudioPlayback_def)
    show "sources (stopAudioPlayback s) ! i \<noteq> Playing"
    proof (cases "i = k")
      case True
      with Some i show ?thesis
        by (simp add: stopAudioPlayback_def stopSource_def)
    next
      case False
      with assms Some i have "sources s ! i \<noteq> Playing"
        by (auto simp: playingOwned_def)
      with False Some i show ?thesis
        by (simp add: stopAudioPlayback_def)
    qed
  qed
qed

lemma stopAudioPlayback_owned: "playingOwned s \<Longrightarrow> playingOwned (stopAudioPlayback s)"
  using stopAudioPlayback_none_playing [of s] by (simp add: playingOwned_def)

lemma initAudioContext_owned [simp]: "playingOwned (initAudioContext s) = playingOwned s"
  by (rule playingOwned_frame) (simp_all add: initAudioContext_def)

lemma handlePowerOff_owned: "playingOwned (handlePowerOff s) = playingOwned (stopAudioPlayback s)"
  by (rule playingOwned_frame) (simp_all add: handlePowerOff_def Let_def split: option.splits)

lemma stopRecording_owned [simp]: "playingOwned (stopRecording s) = playingOwned s"
  by (rule playingOwned_frame) (simp_all add: stopRecording_def split: option.splits)

lemma startRecording_owned: "playingOwned (startRecording s) = playingOwned (stopAudioPlayback s)"
  by (rule playingOwned_frame) (simp_all add: startRecording_def Let_def)

lemma handleAIInteraction_owned [simp]:
  "playingOwned (handleAIInteraction input s) = playingOwned s"
  by (rule playingOwned_frame) (simp_all add: handleAIInteraction_def Let_def)

lemma handleAIInteraction_resume_owned [simp]:
  "playingOwned (handleAIInteraction_resume result s) = playingOwned s"
  by (rule playingOwned_frame)
     (simp_all add: handleAIInteraction_resume_def playAudioResponse_def Let_def)

lemma recorderStopEvent_owned [simp]: "playingOwned (recorderStopEvent i s) = playingOwned s"
  by (simp add: recorderStopEvent_def recorderOnStop_def Let_def)
     (simp add: playingOwned_def)

lemma handleScreenClick_owned [simp]: "playingOwned (handleScreenClick s) = playingOwned s"
  by (simp add: handleScreenClick_def) (simp add: playingOwned_def initAudioContext_def)

lemma playAudioResponse_resume_owned:
  assumes "playingOwned s"
  shows "playingOwned (playAudioResponse_resume decoded outcome s)"
proof (cases decoded)
  case (Inl e)
  with assms show ?thesis
    by (simp add: playAudioResponse_resume_def playingOwned_def)
next
  case (Inr b)
  have n: "\<forall>i<length (sources (stopAudioPlayback s)). sources (stopAudioPlayback s) ! i \<noteq> Playing"
    using assms by (rule stopAudioPlayback_none_playing)
  with Inr show ?thesis
    by (cases outcome)
       (auto simp: playAudioResponse_resume_def Let_def playingOwned_def nth_append)
qed

lemma sourceEndedEvent_owned:
  assumes "playingOwned s"
  shows "playingOwned (sourceEndedEvent i s)"
proof -
  have "sources s ! j = Playing"
    if "j < length (sources s)" and "(sources s)[i := Ended] ! j = Playing" for j
    using that by (cases "j = i") simp_all
  with assms show ?thesis
    by (auto simp: sourceEndedEvent_def sourceOnEnded_def playingOwned_def)
qed

lemma step_playingOwned:
  assumes "playingOwned s" and "step ctxDecode ev s = Some s'"
  shows "playingOwned s'"
proof (cases ev)
  case PowerOnClick
  with assms show ?thesis
    by (auto simp: handlePowerOn_def Let_def initAudioContext_def playingOwned_def)
next
  case BootTimeout
  with assms show ?thesis
    by (auto simp: bootTimeout_def playingOwned_def split: if_splits)
next
  case PowerOffClick
  with assms stopAudioPlayback_owned [of s] show ?thesis
    by (auto simp: handlePowerOff_owned)
next
  case ToggleRecording
  with assms stopAudioPlayback_owned [of "initAudioContext s"] show ?thesis
    by (auto simp: handleToggleRecording_def Let_def startRecording_owned)
next
  case MicGranted
  with assms show ?thesis
    by (auto simp: startRecording_granted_def playingOwned_def split: if_splits)
next
  case MicDenied
  with assms show ?thesis
    by (auto simp: startRecording_denied_def playingOwned_def split: if_splits)
next
  case (DataAvailable chunk)
  with assms show ?thesis
    by (auto simp: playingOwned_def split: if_splits)
next
  case (RecorderStop i)
  with assms show ?thesis
    by (auto split: if_splits)
next
  case (SendMessage t)
  with assms show ?thesis
    by auto
next
  case (ExchangeSettled result)
  have "playingOwned (s\<lparr>pendingExchange := n\<rparr>)" for n
    using assms(1) by (simp add: playingOwned_def)
  with ExchangeSettled assms(2) show ?thesis
    by (auto split: if_splits)
next
  case (ExchangeRejected err)
  with assms show ?thesis
    by (auto simp: playingOwned_def split: if_splits)
next
  case (DecodeSettled base64 outcome)
  have "playingOwned (s\<lparr>pendingDecode := ps\<rparr>)" for ps
    using assms(1) by (simp add: playingOwned_def)
  with DecodeSettled assms(2) show ?thesis
    by (auto simp: playAudioResponse_resume_owned split: if_splits)
next
  case (SourceEnded i)
  with assms show ?thesis
    by (auto simp: sourceEndedEvent_owned split: if_splits)
next
  case ScreenClick
  with assms show ?thesis
    by auto
next
  case (ScreenChange m)
  with assms show ?thesis
    by (auto simp: playingOwned_def)
qed

lemma run_playingOwned:
  "playingOwned s \<Longrightarrow> run ctxDecode evs s = Some s' \<Longrightarrow> playingOwned s'"
proof (induction evs arbitrary: s)
  case Nil
  then show ?case by simp
next
  case (Cons e es)
  then show ?case
    by (auto split: option.splits dest: step_playingOwned)
qed

lemma initial_playingOwned: "playingOwned initialState"
  by (simp add: playingOwned_def initialState_def)

text \<open>
  C2, as stated: in the run \<open>overlapTrace\<close> a recorder is recording and a source is
  playing at the same time. The second recording starts while the exchange of the first
  one is in flight; nothing ties the resolution to the recording, and playAudioResponse
  starts the source.
\<close>

theorem capture_and_playback_overlap_counterexample:
  "run noContainer overlapTrace initialState = Some overlapState \<and>
   captureLive overlapState \<and> playbackLive overlapState"
  by (simp add: run_overlapTrace)
     (simp add: overlapState_def captureLive_def playbackLive_def playingCount_def)

text \<open>
  C2, amended. In every state the controller reaches from its initial state, at most
  one source is playing, and startRecording leaves no source playing before it asks
  for the microphone.
\<close>

theorem at_most_one_playback:
  assumes "run ctxDecode evs initialState = Some s"
  shows "playingCount s \<le> 1 \<and> \<not> playbackLive (startRecording s)"
proof
  have o: "playingOwned s"
    using initial_playingOwned assms by (rule run_playingOwned)
  then show "playingCount s \<le> 1"
    by (rule playingOwned_count)
  have "\<forall>i<length (sources (stopAudioPlayback s)). sources (stopAudioPlayback s) ! i \<noteq> Playing"
    using o by (rule stopAudioPlayback_none_playing)
  then have "filter (\<lambda>x. x = Playing) (sources (stopAudioPlayback s)) = []"
    by (rule no_nth_filter_empty)
  then show "\<not> playbackLive (startRecording s)"
    by (simp add: playbackLive_def playingCount_def startRecording_def Let_def)
qed

theorem at_most_one_playback_witness:
  "run noContainer overlapTrace initialState = Some overlapState \<and>
   playingCount overlapState \<le> 1 \<and> \<not> playbackLive (startRecording overlapState)"
  using at_most_one_playback [of noContainer overlapTrace overlapState]
  by (simp add: run_overlapTrace)

subsection \<open>The chat history\<close>

text \<open>
  C9. Every event leaves chatHistory as it was or appends exactly one entry at its
  end: nothing is removed, reordered or edited.
\<close>

theorem chat_history_append_only:
  assumes "step ctxDecode ev s = Some s'"
  shows "chatHistory s' = chatHistory s \<or> (\<exists>m. chatHistory s' = chatHistory s @ [m])"
proof (cases ev)
  case PowerOffClick
  with assms show ?thesis
    by (auto simp: handlePowerOff_def stopAudioPlayback_def Let_def split: option.splits)
next
  case ToggleRecording
  with assms show ?thesis
    by (auto simp: handleToggleRecording_def startRecording_def stopRecording_def
          stopAudioPlayback_def initAudioContext_def Let_def split: option.splits)
next
  case (DecodeSettled base64 outcome)
  with assms show ?thesis
    by (cases outcome)
       (auto simp: playAudioResponse_resume_def stopAudioPlayback_def Let_def
             split: if_splits sum.splits option.splits)
qed (use assms in \<open>auto simp: handler_defs split: if_splits\<close>)

theorem chat_history_append_only_witness:
  "step noContainer (SendMessage ''hello'') initialState =
     Some (handleAIInteraction (TextInput ''hello'') initialState) \<and>
   chatHistory initialState = [] \<and>
   chatHistory (handleAIInteraction (TextInput ''hello'') initialState) =
     [\<lparr>role = User, content = ''hello''\<rparr>]"
  using chat_history_append_only [of noContainer "SendMessage ''hello''" initialState
      "handleAIInteraction (TextInput ''hello'') initialState"]
  by (simp add: initialState_def handleAIInteraction_def)

subsection \<open>Interruption and late resolutions\<close>

lemma systemErrorText_nonempty: "systemErrorText \<noteq> []"
  by (simp add: systemErrorText_def)

text \<open>
  C1, as stated: after a typed message the controller is Thinking; handlePowerOff sets
  the mode to \<open>OFF\<close>, not \<open>IDLE\<close>, and when the exchange resolves afterwards the
  agent's entry is appended to chatHistory.
\<close>

theorem stale_resolution_is_applied_counterexample:
  "map_option mode (run noContainer [PowerOnClick, BootTimeout, SendMessage ''hello''] initialState)
     = Some THINKING \<and>
   map_option mode
     (run noContainer [PowerOnClick, BootTimeout, SendMessage ''hello'', PowerOffClick] initialState)
     = Some OFF \<and>
   map_option chatHistory
     (run noContainer [PowerOnClick, BootTimeout, SendMessage ''hello'', PowerOffClick] initialState)
     = Some [\<lparr>role = User, content = ''hello''\<rparr>] \<and>
   map_option chatHistory
     (run noContainer
        [PowerOnClick, BootTimeout, SendMessage ''hello'', PowerOffClick,
         ExchangeSettled \<lparr>text' = ''hi'', audioBase64 = None\<rparr>] initialState)
     = Some [\<lparr>role = User, content = ''hello''\<rparr>, \<lparr>role = Model, content = ''hi''\<rparr>]"
  by (simp add: initialState_def handler_defs)

text \<open>
  C1, amended. When handlePowerOff is issued while the controller is Thinking, the mode
  becomes \<open>OFF\<close> and chatHistory stays as it is. An exchange carries no generation
  tag: when the pending exchange resolves afterwards, its result is applied like any
  other. The agent's text, if not empty, is appended to chatHistory, and without an
  audio payload the mode becomes \<open>IDLE\<close>.
\<close>

theorem late_resolution_after_power_off:
  assumes "mode s = THINKING" and "0 < pendingExchange s"
  shows "map_option mode (run ctxDecode [PowerOffClick] s) = Some OFF \<and>
         map_option chatHistory (run ctxDecode [PowerOffClick] s) = Some (chatHistory s) \<and>
         map_option chatHistory (run ctxDecode [PowerOffClick, ExchangeSettled result] s) =
           Some (chatHistory s @
                 (if text' result \<noteq> [] then [\<lparr>role = Model, content = text' result\<rparr>] else [])) \<and>
         (\<not> truthy (audioBase64 result) \<longrightarrow>
            map_option mode (run ctxDecode [PowerOffClick, ExchangeSettled result] s) = Some IDLE)"
proof -
  have p: "pendingExchange (handlePowerOff s) = pendingExchange s"
    and c: "chatHistory (handlePowerOff s) = chatHistory s"
    and m: "mode (handlePowerOff s) = OFF"
    by (simp_all add: handlePowerOff_def stopAudioPlayback_def Let_def split: option.splits)
  show ?thesis
    using assms(2) p c m
    by (simp add: handleAIInteraction_resume_def playAudioResponse_def Let_def)
qed

theorem late_resolution_after_power_off_witness:
  "mode thinkingState = THINKING \<and> 0 < pendingExchange thinkingState \<and>
   map_option mode (run noContainer [PowerOffClick] thinkingState) = Some OFF \<and>
   map_option chatHistory
     (run noContainer [PowerOffClick, ExchangeSettled \<lparr>text' = ''hi'', audioBase64 = None\<rparr>]
        thinkingState) =
     Some [\<lparr>role = User, content = ''hello''\<rparr>, \<lparr>role = Model, content = ''hi''\<rparr>] \<and>
   map_option mode
     (run noContainer [PowerOffClick, ExchangeSettled \<lparr>text' = ''hi'', audioBase64 = None\<rparr>]
        thinkingState) = Some IDLE"
proof -
  have h1: "mode thinkingState = THINKING"
    by (simp add: thinkingState_def handleAIInteraction_def)
  have h2: "0 < pendingExchange thinkingState"
    by (simp add: thinkingState_def handleAIInteraction_def)
  have c: "chatHistory thinkingState = [\<lparr>role = User, content = ''hello''\<rparr>]"
    by (simp add: thinkingState_def handleAIInteraction_def bootTimeout_def handlePowerOn_def
          initAudioContext_def initialState_def Let_def)
  show ?thesis
    using late_resolution_after_power_off
            [OF h1 h2, of noContainer "\<lparr>text' = ''hi'', audioBase64 = None\<rparr>"] h1 h2 c
    by (simp add: truthy_def)
qed

subsection \<open>Failures\<close>

text \<open>
  C3, as stated: with an upstream whose calls fail, the exchange of a typed message
  resolves all the same, and its resolution appends an agent entry to chatHistory.
\<close>

theorem failed_exchange_appends_agent_entry_counterexample:
  "tryExchange offline (TextInput ''hello'') = Inl (PlatformError 0) \<and>
   map_option chatHistory
     (run noContainer [PowerOnClick, BootTimeout, SendMessage ''hello''] initialState)
     = Some [\<lparr>role = User, content = ''hello''\<rparr>] \<and>
   map_option chatHistory
     (run noContainer
        [PowerOnClick, BootTimeout, SendMessage ''hello'',
         exchangeEvent (generateRobotResponse offline (TextInput ''hello''))] initialState)
     = Some [\<lparr>role = User, content = ''hello''\<rparr>,
             \<lparr>role = Model, content = systemErrorText\<rparr>]"
proof -
  have t: "tryExchange offline (TextInput ''hello'') = Inl (PlatformError 0)"
    by (simp add: tryExchange_def makeUserPart_def offline_def)
  then have g: "exchangeEvent (generateRobotResponse offline (TextInput ''hello'')) =
                  ExchangeSettled \<lparr>text' = systemErrorText, audioBase64 = None\<rparr>"
    by (simp add: generateRobotResponse_def exchangeEvent_def offline_def)
  show ?thesis
    using systemErrorText_nonempty
    by (simp add: t g initialState_def handler_defs)
qed

text \<open>
  C3, amended. When an exchange fails inside the \<^verbatim>\<open>try\<close> of generateRobotResponse
  (encoding the recording, the call of the text model or the call of the speech model,
  for whatever cause), generateRobotResponse catches the error and resolves with its
  fixed apology and no audio; the controller returns to \<open>IDLE\<close> and appends the
  apology to chatHistory as the agent's entry.
\<close>

theorem failed_exchange_answered_with_apology:
  assumes "getAiClient ai = Inr client"
    and "tryExchange ai input = Inl e" and "0 < pendingExchange s"
  shows "generateRobotResponse ai input =
           Inr \<lparr>text' = systemErrorText, audioBase64 = None\<rparr> \<and>
         map_option mode (step ctxDecode (exchangeEvent (generateRobotResponse ai input)) s) =
           Some IDLE \<and>
         map_option chatHistory
           (step ctxDecode (exchangeEvent (generateRobotResponse ai input)) s) =
           Some (chatHistory s @ [\<lparr>role = Model, content = systemErrorText\<rparr>])"
  using assms systemErrorText_nonempty
  by (simp add: generateRobotResponse_def exchangeEvent_def handleAIInteraction_resume_def
        truthy_def)

theorem failed_exchange_answered_with_apology_witness:
  "getAiClient offline = Inr () \<and>
   tryExchange offline (TextInput ''hello'') = Inl (PlatformError 0) \<and>
   0 < pendingExchange thinkingState \<and>
   map_option mode
     (step noContainer (exchangeEvent (generateRobotResponse offline (TextInput ''hello'')))
        thinkingState) = Some IDLE \<and>
   map_option chatHistory
     (step noContainer (exchangeEvent (generateRobotResponse offline (TextInput ''hello'')))
        thinkingState) =
     Some [\<lparr>role = User, content = ''hello''\<rparr>, \<lparr>role = Model, content = systemErrorText\<rparr>]"
proof -
  have h0: "getAiClient offline = Inr ()"
    by (simp add: offline_def)
  have h1: "tryExchange offline (TextInput ''hello'') = Inl (PlatformError 0)"
    by (simp add: tryExchange_def makeUserPart_def offline_def)
  have h2: "0 < pendingExchange thinkingState"
    by (simp add: thinkingState_def handleAIInteraction_def)
  have c: "chatHistory thinkingState = [\<lparr>role = User, content = ''hello''\<rparr>]"
    by (simp add: thinkingState_def handleAIInteraction_def bootTimeout_def handlePowerOn_def
          initAudioContext_def initialState_def Let_def)
  note r = failed_exchange_answered_with_apology [OF h0 h1 h2, of noContainer]
  from r have "map_option mode
      (step noContainer (exchangeEvent (generateRobotResponse offline (TextInput ''hello'')))
         thinkingState) = Some IDLE"
    by blast
  moreover from r have "map_option chatHistory
      (step noContainer (exchangeEvent (generateRobotResponse offline (TextInput ''hello'')))
         thinkingState) =
      Some (chatHistory thinkingState @ [\<lparr>role = Model, content = systemErrorText\<rparr>])"
    by blast
  then have "map_option chatHistory
      (step noContainer (exchangeEvent (generateRobotResponse offline (TextInput ''hello'')))
         thinkingState) =
      Some [\<lparr>role = User, content = ''hello''\<rparr>, \<lparr>role = Model, content = systemErrorText\<rparr>]"
    by (simp only: c append_Cons append_Nil)
  ultimately show ?thesis
    using h0 h1 h2 by blast
qed

text \<open>
  The failure the \<^verbatim>\<open>try\<close> does not cover: when creating the client throws, the
  exchange rejects, and its completion changes neither the mode nor chatHistory. A
  controller that was Thinking stays Thinking.
\<close>

lemma client_failure_rejects:
  assumes "getAiClient ai = Inl e" and "0 < pendingExchange s"
  shows "generateRobotResponse ai input = Inl e \<and>
         map_option mode (step ctxDecode (exchangeEvent (generateRobotResponse ai input)) s) =
           Some (mode s) \<and>
         map_option chatHistory
           (step ctxDecode (exchangeEvent (generateRobotResponse ai input)) s) =
           Some (chatHistory s)"
  using assms by (simp add: generateRobotResponse_def exchangeEvent_def)

text \<open>
  C6. When an exchange resolves with an audio payload while the controller is Thinking
  and the payload cannot be decoded, or the platform fails while the playback is set up
  or started, the agent's text is appended to chatHistory all the same, the mode goes
  from \<open>THINKING\<close> to \<open>IDLE\<close> without passing \<open>SPEAKING\<close>, and mode,
  expression and chatHistory end as they do for the same response without audio.
\<close>

theorem audio_failure_falls_back_to_text:
  assumes "audioContextRef s" and "gainNodeRef s"
    and "0 < pendingExchange s" and "mode s = THINKING"
    and "audioBase64 result = Some base64" and "base64 \<noteq> []"
    and "(\<exists>e. decodeAudioData ctxDecode base64 = Inl e) \<or> outcome \<noteq> Started"
  shows "map_option mode (run ctxDecode [ExchangeSettled result] s) = Some THINKING \<and>
         map_option mode (run ctxDecode [ExchangeSettled result, DecodeSettled base64 outcome] s) =
           Some IDLE \<and>
         map_option chatHistory
           (run ctxDecode [ExchangeSettled result, DecodeSettled base64 outcome] s) =
           Some (chatHistory s @
                 (if text' result \<noteq> [] then [\<lparr>role = Model, content = text' result\<rparr>] else [])) \<and>
         map_option mode (run ctxDecode [ExchangeSettled result, DecodeSettled base64 outcome] s) =
           map_option mode (run ctxDecode [ExchangeSettled (result\<lparr>audioBase64 := None\<rparr>)] s) \<and>
         map_option expression
           (run ctxDecode [ExchangeSettled result, DecodeSettled base64 outcome] s) =
           map_option expression
             (run ctxDecode [ExchangeSettled (result\<lparr>audioBase64 := None\<rparr>)] s) \<and>
         map_option chatHistory
           (run ctxDecode [ExchangeSettled result, DecodeSettled base64 outcome] s) =
           map_option chatHistory
             (run ctxDecode [ExchangeSettled (result\<lparr>audioBase64 := None\<rparr>)] s)"
proof -
  let ?s0 = "s\<lparr>pendingExchange := pendingExchange s - 1\<rparr>"
  let ?s1 = "handleAIInteraction_resume result ?s0"
  let ?s2 = "playAudioResponse_resume (decodeAudioData ctxDecode base64) outcome
               (?s1\<lparr>pendingDecode := remove1 base64 (pendingDecode ?s1)\<rparr>)"
  let ?n = "handleAIInteraction_resume (result\<lparr>audioBase64 := None\<rparr>) ?s0"
  have r1: "run ctxDecode [ExchangeSettled result] s = Some ?s1"
    using assms(3) by simp
  have pd: "base64 \<in> set (pendingDecode ?s1)"
    using assms(1,2,5,6)
    by (simp add: handleAIInteraction_resume_def playAudioResponse_def truthy_def Let_def)
  have r2: "run ctxDecode [ExchangeSettled result, DecodeSettled base64 outcome] s = Some ?s2"
    using assms(3) pd by simp
  have rn: "run ctxDecode [ExchangeSettled (result\<lparr>audioBase64 := None\<rparr>)] s = Some ?n"
    using assms(3) by simp
  have m1: "mode ?s1 = THINKING"
    and c1: "chatHistory ?s1 = chatHistory s @
               (if text' result \<noteq> [] then [\<lparr>role = Model, content = text' result\<rparr>] else [])"
    using assms(1,2,4,5,6)
    by (simp_all add: handleAIInteraction_resume_def playAudioResponse_def truthy_def Let_def)
  have m2: "mode ?s2 = IDLE" and e2: "expression ?s2 = NORMAL"
    and c2: "chatHistory ?s2 = chatHistory ?s1"
    using assms(7)
    by (cases outcome;
        auto simp: playAudioResponse_resume_def stopAudioPlayback_def Let_def
             split: sum.splits option.splits)+
  have mn: "mode ?n = IDLE" and en: "expression ?n = NORMAL"
    and cn: "chatHistory ?n = chatHistory s @
               (if text' result \<noteq> [] then [\<lparr>role = Model, content = text' result\<rparr>] else [])"
    by (simp_all add: handleAIInteraction_resume_def truthy_def Let_def)
  show ?thesis
    unfolding r1 r2 rn option.map by (simp only: m1 m2 e2 c2 c1 mn en cn simp_thms)
qed

theorem audio_failure_falls_back_to_text_witness:
  "audioContextRef thinkingState \<and> gainNodeRef thinkingState \<and>
   0 < pendingExchange thinkingState \<and> mode thinkingState = THINKING \<and>
   decodeAudioData noContainer ''AQID'' = Inl EncodingError \<and>
   map_option mode
     (run noContainer
        [ExchangeSettled \<lparr>text' = ''hi'', audioBase64 = Some ''AQID''\<rparr>,
         DecodeSettled ''AQID'' Started] thinkingState) = Some IDLE \<and>
   map_option chatHistory
     (run noContainer
        [ExchangeSettled \<lparr>text' = ''hi'', audioBase64 = Some ''AQID''\<rparr>,
         DecodeSettled ''AQID'' Started] thinkingState) =
     Some [\<lparr>role = User, content = ''hello''\<rparr>, \<lparr>role = Model, content = ''hi''\<rparr>]"
proof -
  have st: "thinkingState =
     initialState\<lparr>powerStatus := PowerON, mode := THINKING, expression := LOADING,
       chatHistory := [\<lparr>role = User, content = ''hello''\<rparr>],
       audioContextRef := True, gainNodeRef := True, pendingExchange := 1\<rparr>"
    by (simp add: thinkingState_def handleAIInteraction_def bootTimeout_def handlePowerOn_def
          initAudioContext_def initialState_def Let_def)
  have h1: "audioContextRef thinkingState" and h2: "gainNodeRef thinkingState"
    and h3: "0 < pendingExchange thinkingState" and h4: "mode thinkingState = THINKING"
    and c: "chatHistory thinkingState = [\<lparr>role = User, content = ''hello''\<rparr>]"
    by (simp_all add: st)
  have h5: "audioBase64 \<lparr>text' = ''hi'', audioBase64 = Some ''AQID''\<rparr> = Some ''AQID''"
    by simp
  have h6: "''AQID'' \<noteq> []"
    by simp
  have h7: "(\<exists>e. decodeAudioData noContainer ''AQID'' = Inl e) \<or> Started \<noteq> Started"
    by (simp add: decode_AQID)
  note r = audio_failure_falls_back_to_text [OF h1 h2 h3 h4 h5 h6 h7]
  from r have "map_option mode
     (run noContainer
        [ExchangeSettled \<lparr>text' = ''hi'', audioBase64 = Some ''AQID''\<rparr>,
         DecodeSettled ''AQID'' Started] thinkingState) = Some IDLE"
    by blast
  moreover from r have "map_option chatHistory
     (run noContainer
        [ExchangeSettled \<lparr>text' = ''hi'', audioBase64 = Some ''AQID''\<rparr>,
         DecodeSettled ''AQID'' Started] thinkingState) =
     Some (chatHistory thinkingState @
           (if text' \<lparr>text' = ''hi'', audioBase64 = Some ''AQID''\<rparr> \<noteq> []
            then [\<lparr>role = Model, content = text' \<lparr>text' = ''hi'', audioBase64 = Some ''AQID''\<rparr>\<rparr>]
            else []))"
    by blast
  then have "map_option chatHistory
     (run noContainer
        [ExchangeSettled \<lparr>text' = ''hi'', audioBase64 = Some ''AQID''\<rparr>,
         DecodeSettled ''AQID'' Started] thinkingState) =
     Some [\<lparr>role = User, content = ''hello''\<rparr>, \<lparr>role = Model, content = ''hi''\<rparr>]"
    by (simp only: c RobotResponse.simps list.simps if_True simp_thms append_Cons append_Nil)
  ultimately show ?thesis
    using h1 h2 h3 h4 decode_AQID by blast
qed

text \<open>
  C10. When an exchange resolves with an audio payload while the controller is Thinking
  and the audio context has not been created, playAudioResponse returns at once and
  changes nothing: the mode stays \<open>THINKING\<close>, no decoding is started and no source
  is created or stopped. The agent's text has been appended before.
\<close>

theorem playback_without_audio_context:
  assumes "\<not> audioContextRef s \<or> \<not> gainNodeRef s"
    and "truthy (audioBase64 result)"
    and "0 < pendingExchange s" and "mode s = THINKING"
  shows "playAudioResponse (the (audioBase64 result)) s = s \<and>
         map_option mode (step ctxDecode (ExchangeSettled result) s) = Some THINKING \<and>
         map_option expression (step ctxDecode (ExchangeSettled result) s) = Some (expression s) \<and>
         map_option pendingDecode (step ctxDecode (ExchangeSettled result) s) =
           Some (pendingDecode s) \<and>
         map_option sources (step ctxDecode (ExchangeSettled result) s) = Some (sources s) \<and>
         map_option audioSourceRef (step ctxDecode (ExchangeSettled result) s) =
           Some (audioSourceRef s) \<and>
         map_option chatHistory (step ctxDecode (ExchangeSettled result) s) =
           Some (chatHistory s @
                 (if text' result \<noteq> [] then [\<lparr>role = Model, content = text' result\<rparr>] else []))"
  using assms
  by (auto simp: handleAIInteraction_resume_def playAudioResponse_def Let_def)

theorem playback_without_audio_context_witness:
  "\<not> audioContextRef coldState \<and>
   truthy (audioBase64 \<lparr>text' = ''hi'', audioBase64 = Some ''AIA=''\<rparr>) \<and>
   0 < pendingExchange coldState \<and> mode coldState = THINKING \<and>
   map_option mode
     (step noContainer (ExchangeSettled \<lparr>text' = ''hi'', audioBase64 = Some ''AIA=''\<rparr>) coldState)
     = Some THINKING \<and>
   map_option pendingDecode
     (step noContainer (ExchangeSettled \<lparr>text' = ''hi'', audioBase64 = Some ''AIA=''\<rparr>) coldState)
     = Some []"
proof -
  have h1: "\<not> audioContextRef coldState \<or> \<not> gainNodeRef coldState"
    by (simp add: coldState_def handleAIInteraction_def initialState_def)
  have h2: "truthy (audioBase64 \<lparr>text' = ''hi'', audioBase64 = Some ''AIA=''\<rparr>)"
    by (simp add: truthy_def)
  have h3: "0 < pendingExchange coldState" and h4: "mode coldState = THINKING"
    and p: "pendingDecode coldState = []" and a: "\<not> audioContextRef coldState"
    by (simp_all add: coldState_def handleAIInteraction_def initialState_def)
  note r = playback_without_audio_context [OF h1 h2 h3 h4, of noContainer]
  from r have "map_option mode
     (step noContainer (ExchangeSettled \<lparr>text' = ''hi'', audioBase64 = Some ''AIA=''\<rparr>) coldState)
     = Some THINKING"
    by blast
  moreover from r have "map_option pendingDecode
     (step noContainer (ExchangeSettled \<lparr>text' = ''hi'', audioBase64 = Some ''AIA=''\<rparr>) coldState)
     = Some (pendingDecode coldState)"
    by blast
  then have "map_option pendingDecode
     (step noContainer (ExchangeSettled \<lparr>text' = ''hi'', audioBase64 = Some ''AIA=''\<rparr>) coldState)
     = Some []"
    by (simp only: p)
  ultimately show ?thesis
    using a h2 h3 h4 by blast
qed

end
